theory Spec2Isabelle
  imports Main "HOL-Library.Word"
begin

unbundle bit_operations_syntax

section \<open>The IR vocabulary the header relies on\<close>

text \<open>
  \<^verbatim>\<open>FunctionSignatureOpts.h\<close> only includes the declarations of the IR classes it uses
  (\<^verbatim>\<open>SILType\<close>, \<^verbatim>\<open>SILFunctionArgument\<close>, \<^verbatim>\<open>ProjectionTree\<close>,
  \<^verbatim>\<open>ConsumedArgToEpilogueReleaseMatcher\<close>, ...). Each of them is modelled by the
  observations the header makes of it, and nothing more.
\<close>

text \<open>A \<^verbatim>\<open>SILType\<close> is either an object (a value passed directly) or an address
  (a value passed indirectly); \<^verbatim>\<open>isObject\<close> and \<^verbatim>\<open>isAddress\<close> read that category.\<close>

datatype SILValueCategory = Object | Address

record SILType =
  TypeId :: nat
  Category :: SILValueCategory
  ContainsArchetype :: bool

definition isObject :: "SILType \<Rightarrow> bool" where
  "isObject T = (Category T = Object)"

definition isAddress :: "SILType \<Rightarrow> bool" where
  "isAddress T = (Category T = Address)"

definition hasArchetype :: "SILType \<Rightarrow> bool" where
  "hasArchetype T = ContainsArchetype T"

definition getObjectType :: "SILType \<Rightarrow> SILType" where
  "getObjectType T = T\<lparr>Category := Object\<rparr>"

text \<open>The argument conventions. The header names \<^verbatim>\<open>Indirect_In\<close>,
  \<^verbatim>\<open>Indirect_In_Guaranteed\<close> and \<^verbatim>\<open>Direct_Owned\<close>; the other constructors stand
  for the remaining conventions of the specification's data model.\<close>

datatype SILArgumentConvention =
    Indirect_In
  | Indirect_In_Guaranteed
  | Indirect_Inout
  | Indirect_Out
  | Direct_Owned
  | Direct_Unowned
  | Direct_Guaranteed

datatype ValueOwnershipKind = Trivial | Unowned | Owned | Guaranteed | Any

text \<open>The module answers the two per-type questions the header asks:
  \<^verbatim>\<open>SubTy.isTrivial(Module)\<close> and the expansion oracle \<^verbatim>\<open>shouldExpand(Module, Ty)\<close>.
  Both are external to the header and are taken as parameters carried by the module.\<close>

record SILModule =
  TrivialTypes :: "SILType \<Rightarrow> bool"
  ExpandableTypes :: "SILType \<Rightarrow> bool"

definition isTrivial :: "SILType \<Rightarrow> SILModule \<Rightarrow> bool" where
  "isTrivial T M = TrivialTypes M T"

definition shouldExpand :: "SILModule \<Rightarrow> SILType \<Rightarrow> bool" where
  "shouldExpand M T = ExpandableTypes M T"

type_synonym SILInstruction = nat
type_synonym ValueDecl = nat

record SILParameterInfo =
  ParamType :: SILType
  ParamConvention :: SILArgumentConvention

text \<open>A function argument, by the getters the header calls on it.\<close>

record SILFunctionArgument =
  getModule :: SILModule
  getType :: SILType
  getIndex :: "32 word"
  getDecl :: "ValueDecl option"
  getKnownParameterInfo :: "SILParameterInfo option"
  getArgumentConvention :: SILArgumentConvention
  getOwnershipKind :: ValueOwnershipKind
  isIndirectResult :: bool

definition Arg_hasConvention :: "SILFunctionArgument \<Rightarrow> SILArgumentConvention \<Rightarrow> bool" where
  "Arg_hasConvention A P = (getArgumentConvention A = P)"

text \<open>The projection tree, by the two queries \<^verbatim>\<open>shouldExplode\<close> makes of it.
  \<^verbatim>\<open>getLiveLeafCount\<close> is stored in an \<^verbatim>\<open>unsigned\<close>.\<close>

record ProjectionTree =
  isSingleton :: bool
  getLiveLeafCount :: "32 word"

text \<open>Modelled from the spec: the release matcher
  (\<^verbatim>\<open>ConsumedArgToEpilogueReleaseMatcher\<close>, declared in an analysis header that is not
  part of the sources at hand). The specification describes it as returning, for an
  argument, "the complete or partial set of reference-count operations attributable to
  it": an argument the matcher knows has a set of matched releases and the information
  whether that set is complete. Arguments are identified by their index.
  The query \<^verbatim>\<open>hasSomeReleasesForArgument\<close> is the override condition of the explosion
  policy, described as "at least one matched release even if not all releases were
  found" and as "did not find all of its releases", and by the comment at its call
  site as "we can not find all the releases for it ... maybe we can find some of the
  releases": some releases were matched, and not all of them.\<close>

record ArgumentState =
  matchedReleases :: "SILInstruction list"
  foundAllReleases :: bool

type_synonym ConsumedArgToEpilogueReleaseMatcher = "32 word \<rightharpoonup> ArgumentState"

definition hasSomeReleasesForArgument ::
  "ConsumedArgToEpilogueReleaseMatcher \<Rightarrow> SILFunctionArgument \<Rightarrow> bool" where
  "hasSomeReleasesForArgument ERM A =
     (case ERM (getIndex A) of
        None \<Rightarrow> False
      | Some st \<Rightarrow> matchedReleases st \<noteq> [] \<and> \<not> foundAllReleases st)"

section \<open>ArgumentDescriptor\<close>

record ArgumentDescriptor =
  Arg :: SILFunctionArgument
  PInfo :: "SILParameterInfo option"
  Index :: "32 word"
  Decl :: "ValueDecl option"
  IsEntirelyDead :: bool
  WasErased :: bool
  Explode :: bool
  OwnedToGuaranteed :: bool
  IsIndirectResult :: bool
  CalleeRelease :: "SILInstruction list"
  CalleeReleaseInThrowBlock :: "SILInstruction list"
  ProjTree :: ProjectionTree

text \<open>The constructor \<^verbatim>\<open>ArgumentDescriptor(SILFunctionArgument *A)\<close>. The projection
  tree is built by \<^verbatim>\<open>ProjectionTree(Module, Type)\<close>, whose constructor is a parameter
  here. The body of the constructor assigns \<^verbatim>\<open>PInfo\<close> once more for an argument that
  is not an indirect result.\<close>

definition ArgumentDescriptor_init ::
  "(SILModule \<Rightarrow> SILType \<Rightarrow> ProjectionTree) \<Rightarrow> SILFunctionArgument \<Rightarrow> ArgumentDescriptor" where
  "ArgumentDescriptor_init mkProjTree A =
     (let D = \<lparr> Arg = A,
                PInfo = getKnownParameterInfo A,
                Index = getIndex A,
                Decl = getDecl A,
                IsEntirelyDead = False,
                WasErased = False,
                Explode = False,
                OwnedToGuaranteed = False,
                IsIndirectResult = isIndirectResult A,
                CalleeRelease = [],
                CalleeReleaseInThrowBlock = [],
                ProjTree = mkProjTree (getModule A) (getType A) \<rparr>
      in if \<not> isIndirectResult A
         then D\<lparr>PInfo := getKnownParameterInfo (Arg D)\<rparr>
         else D)"

definition hasConvention :: "ArgumentDescriptor \<Rightarrow> SILArgumentConvention \<Rightarrow> bool" where
  "hasConvention D P = Arg_hasConvention (Arg D) P"

definition canOptimizeLiveArg :: "ArgumentDescriptor \<Rightarrow> bool" where
  "canOptimizeLiveArg D =
     (if isObject (getType (Arg D)) then True
      else if hasArchetype (getType (Arg D)) \<and>
              isAddress (getType (Arg D)) \<and>
              (Arg_hasConvention (Arg D) Indirect_In \<or>
               Arg_hasConvention (Arg D) Indirect_In_Guaranteed) then True
      else False)"

definition shouldExplode ::
  "ArgumentDescriptor \<Rightarrow> ConsumedArgToEpilogueReleaseMatcher \<Rightarrow> bool" where
  "shouldExplode D ERM =
     (if \<not> canOptimizeLiveArg D then False
      else if isSingleton (ProjTree D) then False
      else let Ty = getObjectType (getType (Arg D)) in
        if \<not> shouldExpand (getModule (Arg D)) Ty then False
        else if hasConvention D Direct_Owned \<and> hasSomeReleasesForArgument ERM (Arg D) then True
        else let explosionSize = getLiveLeafCount (ProjTree D) in
          explosionSize \<ge> 1 \<and> explosionSize \<le> 3)"

definition getTransformedOwnershipKind ::
  "ArgumentDescriptor \<Rightarrow> SILType \<Rightarrow> ValueOwnershipKind option" where
  "getTransformedOwnershipKind D SubTy =
     (if IsEntirelyDead D then None
      else if isTrivial SubTy (getModule (Arg D)) then Some Trivial
      else if OwnedToGuaranteed D then Some Guaranteed
      else Some (getOwnershipKind (Arg D)))"

section \<open>ResultDescriptor and the transform\<close>

datatype ResultConvention = Result_Indirect | Result_Owned | Result_Unowned
  | Result_UnownedInnerPointer | Result_Autoreleased

record SILResultInfo =
  ResultType :: SILType
  getConvention :: ResultConvention

record ResultDescriptor =
  ResultInfo :: SILResultInfo
  CalleeRetain :: "SILInstruction list"
  ResultOwnedToGuaranteed :: bool

definition ResultDescriptor_init :: "SILResultInfo \<Rightarrow> ResultDescriptor" where
  "ResultDescriptor_init RI =
     \<lparr> ResultInfo = RI, CalleeRetain = [], ResultOwnedToGuaranteed = False \<rparr>"

definition Result_hasConvention :: "ResultDescriptor \<Rightarrow> ResultConvention \<Rightarrow> bool" where
  "Result_hasConvention RD R = (getConvention (ResultInfo RD) = R)"

text \<open>Functions live in the module's function table; a \<^verbatim>\<open>SILFunction *\<close> is a position
  in that table, and a null pointer is \<open>None\<close>.\<close>

type_synonym FunctionHandle = nat

record SILFunction =
  FnName :: string
  FnParameters :: "SILParameterInfo list"
  FnResults :: "SILResultInfo list"
  FnBody :: "SILInstruction list"

type_synonym FunctionTable = "SILFunction list"

record FunctionSignatureTransformDescriptor =
  OriginalFunction :: FunctionHandle
  OptimizedFunction :: "FunctionHandle option"
  AIM :: "int \<rightharpoonup> int"
  shouldModifySelfArgument :: bool
  ArgumentDescList :: "ArgumentDescriptor list"
  ResultDescList :: "ResultDescriptor list"

text \<open>The epilogue analysis hands out one release matcher for the return block and, for
  a function that has a throw block, one for the throw block; it also knows the
  retains matched to each direct result. The RC identity analysis is only stored.\<close>

record EpilogueARCAnalysis =
  ReturnMatcher :: ConsumedArgToEpilogueReleaseMatcher
  ThrowMatcher :: "ConsumedArgToEpilogueReleaseMatcher option"
  RetainMatcher :: "nat \<Rightarrow> SILInstruction list"

type_synonym RCIdentityAnalysis = nat

record FunctionSignatureTransform =
  TransformDescriptor :: FunctionSignatureTransformDescriptor
  RCIA :: RCIdentityAnalysis
  EA :: EpilogueARCAnalysis

text \<open>The constructor: \<^verbatim>\<open>TransformDescriptor{F, nullptr, AIM, false, ADL, RDL}\<close>. The
  mangler argument is accepted and not stored.\<close>

definition FunctionSignatureTransform_init ::
  "FunctionHandle \<Rightarrow> RCIdentityAnalysis \<Rightarrow> EpilogueARCAnalysis \<Rightarrow> 'mangler \<Rightarrow>
   (int \<rightharpoonup> int) \<Rightarrow> ArgumentDescriptor list \<Rightarrow> ResultDescriptor list \<Rightarrow>
   FunctionSignatureTransform" where
  "FunctionSignatureTransform_init F rcia ea Mangler aim ADL RDL =
     \<lparr> TransformDescriptor =
         \<lparr> OriginalFunction = F, OptimizedFunction = None, AIM = aim,
           shouldModifySelfArgument = False,
           ArgumentDescList = ADL, ResultDescList = RDL \<rparr>,
       RCIA = rcia, EA = ea \<rparr>"

definition getOptimizedFunction :: "FunctionSignatureTransform \<Rightarrow> FunctionHandle option" where
  "getOptimizedFunction T = OptimizedFunction (TransformDescriptor T)"

section \<open>The engine\<close>

text \<open>The header declares \<^verbatim>\<open>run\<close>, the three analyses and
  \<^verbatim>\<open>createFunctionSignatureOptimizedFunction\<close>; their bodies are in the implementation
  file of the pass, which is not among the sources. They are modelled from the
  specification (sections 3, 4 and 5).\<close>

definition releasesFoundFor ::
  "ConsumedArgToEpilogueReleaseMatcher \<Rightarrow> SILFunctionArgument \<Rightarrow> SILInstruction list" where
  "releasesFoundFor ERM A =
     (case ERM (getIndex A) of None \<Rightarrow> [] | Some st \<Rightarrow> matchedReleases st)"

definition allReleasesFoundFor ::
  "ConsumedArgToEpilogueReleaseMatcher \<Rightarrow> SILFunctionArgument \<Rightarrow> bool" where
  "allReleasesFoundFor ERM A =
     (case ERM (getIndex A) of None \<Rightarrow> False | Some st \<Rightarrow> foundAllReleases st)"

text \<open>Modelled from the spec: \<^verbatim>\<open>DeadArgumentAnalyzeParameters\<close> (body missing). "For
  every argument whose decomposition tree shows zero live leaf uses and which is not
  an indirect result, mark isEntirelyDead." The result tells whether an argument was
  marked.\<close>

definition deadArgumentEligible :: "ArgumentDescriptor \<Rightarrow> bool" where
  "deadArgumentEligible D = (getLiveLeafCount (ProjTree D) = 0 \<and> \<not> IsIndirectResult D)"

definition DeadArgumentAnalyzeParameters ::
  "ArgumentDescriptor list \<Rightarrow> bool \<times> ArgumentDescriptor list" where
  "DeadArgumentAnalyzeParameters ADL =
     (list_ex deadArgumentEligible ADL,
      map (\<lambda>D. if deadArgumentEligible D then D\<lparr>IsEntirelyDead := True\<rparr> else D) ADL)"

text \<open>Modelled from the spec: \<^verbatim>\<open>OwnedToGuaranteedAnalyzeParameters\<close> (body missing). A
  parameter is "eligible only if every release attributable to this argument along
  both the normal-return and throwing-return paths was found by the external matcher";
  the decision "requires ownershipConvention == Owned and a complete match of every
  release along both exit paths". Narrowing decisions "are made on the already-pruned
  argument list", so a dead argument is passed over. The matched releases are recorded
  in the descriptor.\<close>

definition ownedToGuaranteedEligible ::
  "EpilogueARCAnalysis \<Rightarrow> ArgumentDescriptor \<Rightarrow> bool" where
  "ownedToGuaranteedEligible ea D =
     (\<not> IsEntirelyDead D \<and> hasConvention D Direct_Owned \<and>
      allReleasesFoundFor (ReturnMatcher ea) (Arg D) \<and>
      (case ThrowMatcher ea of None \<Rightarrow> True | Some tm \<Rightarrow> allReleasesFoundFor tm (Arg D)))"

definition OwnedToGuaranteedAnalyzeParameters ::
  "EpilogueARCAnalysis \<Rightarrow> ArgumentDescriptor list \<Rightarrow> bool \<times> ArgumentDescriptor list" where
  "OwnedToGuaranteedAnalyzeParameters ea ADL =
     (list_ex (ownedToGuaranteedEligible ea) ADL,
      map (\<lambda>D. if ownedToGuaranteedEligible ea D
               then D\<lparr> OwnedToGuaranteed := True,
                       CalleeRelease := releasesFoundFor (ReturnMatcher ea) (Arg D),
                       CalleeReleaseInThrowBlock :=
                         (case ThrowMatcher ea of None \<Rightarrow> []
                          | Some tm \<Rightarrow> releasesFoundFor tm (Arg D)) \<rparr>
               else D) ADL)"

text \<open>Modelled from the spec: \<^verbatim>\<open>OwnedToGuaranteedAnalyzeResults\<close> (body missing). The
  decision on a result "requires convention Owned and non-empty matchedRetains".\<close>

definition resultEligible :: "EpilogueARCAnalysis \<Rightarrow> nat \<times> ResultDescriptor \<Rightarrow> bool" where
  "resultEligible ea iRD =
     (Result_hasConvention (snd iRD) Result_Owned \<and> RetainMatcher ea (fst iRD) \<noteq> [])"

definition OwnedToGuaranteedAnalyzeResults ::
  "EpilogueARCAnalysis \<Rightarrow> ResultDescriptor list \<Rightarrow> bool \<times> ResultDescriptor list" where
  "OwnedToGuaranteedAnalyzeResults ea RDL =
     (list_ex (resultEligible ea) (enumerate 0 RDL),
      map (\<lambda>iRD. if resultEligible ea iRD
                 then (snd iRD)\<lparr> CalleeRetain := RetainMatcher ea (fst iRD),
                                 ResultOwnedToGuaranteed := True \<rparr>
                 else snd iRD) (enumerate 0 RDL))"

text \<open>Modelled from the spec: \<^verbatim>\<open>ArgumentExplosionAnalyzeParameters\<close> (body missing). The
  eligibility policy of section 4.3 is \<^verbatim>\<open>shouldExplode\<close>, asked with the matcher of the
  return block.\<close>

definition ArgumentExplosionAnalyzeParameters ::
  "EpilogueARCAnalysis \<Rightarrow> ArgumentDescriptor list \<Rightarrow> bool \<times> ArgumentDescriptor list" where
  "ArgumentExplosionAnalyzeParameters ea ADL =
     (list_ex (\<lambda>D. shouldExplode D (ReturnMatcher ea)) ADL,
      map (\<lambda>D. D\<lparr>Explode := shouldExplode D (ReturnMatcher ea)\<rparr>) ADL)"

text \<open>The services the synthesis consumes: the name mangler, the synthesis of the new
  signature from the descriptors, the cloning of the body and the construction of the
  thunk's body. All four are external and are parameters.\<close>

record SynthesisServices =
  createOptimizedSILFunctionName ::
    "SILFunction \<Rightarrow> ArgumentDescriptor list \<Rightarrow> ResultDescriptor list \<Rightarrow> string"
  createOptimizedSILFunctionType ::
    "SILFunction \<Rightarrow> ArgumentDescriptor list \<Rightarrow> ResultDescriptor list \<Rightarrow>
     SILParameterInfo list \<times> SILResultInfo list"
  cloneBody ::
    "SILFunction \<Rightarrow> ArgumentDescriptor list \<Rightarrow> ResultDescriptor list \<Rightarrow> SILInstruction list"
  thunkBody ::
    "SILFunction \<Rightarrow> FunctionHandle \<Rightarrow> ArgumentDescriptor list \<Rightarrow> ResultDescriptor list \<Rightarrow>
     SILInstruction list"

record EngineState =
  Transform :: FunctionSignatureTransform
  Functions :: FunctionTable

text \<open>Modelled from the spec: \<^verbatim>\<open>createFunctionSignatureOptimizedFunction\<close> (body
  missing). It "adds exactly one new function and mutates exactly one existing
  function": the specialized function gets the mangled name, the synthesized signature
  and a copy of the original body, the original function "is mutated in place to become
  a thunk and is never deleted", and the plan records the specialized function. The
  original function is a function of the module; for a handle that is not, there is
  nothing to specialize.\<close>

definition createFunctionSignatureOptimizedFunction ::
  "SynthesisServices \<Rightarrow> EngineState \<Rightarrow> EngineState" where
  "createFunctionSignatureOptimizedFunction sv S =
     (let TD = TransformDescriptor (Transform S);
          ADL = ArgumentDescList TD;
          RDL = ResultDescList TD
      in if OriginalFunction TD < length (Functions S) then
           (let F = Functions S ! OriginalFunction TD;
                NewH = length (Functions S);
                NewF = \<lparr> FnName = createOptimizedSILFunctionName sv F ADL RDL,
                         FnParameters = fst (createOptimizedSILFunctionType sv F ADL RDL),
                         FnResults = snd (createOptimizedSILFunctionType sv F ADL RDL),
                         FnBody = cloneBody sv F ADL RDL \<rparr>;
                Thunk = F\<lparr>FnBody := thunkBody sv F NewH ADL RDL\<rparr>
            in S\<lparr> Transform := (Transform S)\<lparr>TransformDescriptor :=
                                    TD\<lparr>OptimizedFunction := Some NewH\<rparr>\<rparr>,
                  Functions := (Functions S)[OriginalFunction TD := Thunk] @ [NewF] \<rparr>)
         else S)"

text \<open>Modelled from the spec: \<^verbatim>\<open>FunctionSignatureTransform::run\<close> (body missing). It
  "executes, in fixed order, dead-argument analysis, ownership-narrowing analysis
  (parameters then results), and explosion analysis, over the full argument/result
  descriptor lists". "If no descriptor was marked eligible by any of the three passes,
  run reports 'no opportunity' and performs no mutation"; otherwise the specialized
  function is created and the result is true. The specification leaves the use of
  \<^verbatim>\<open>hasCaller\<close> to the orchestrating caller ("not decided locally"), so the model does
  not branch on it. The analyses write their decisions into the descriptors, which
  are analysis state and not IR.\<close>

definition run :: "SynthesisServices \<Rightarrow> bool \<Rightarrow> EngineState \<Rightarrow> bool \<times> EngineState" where
  "run sv hasCaller S =
     (let T = Transform S;
          TD = TransformDescriptor T;
          (dead, ADL1) = DeadArgumentAnalyzeParameters (ArgumentDescList TD);
          (o2gP, ADL2) = OwnedToGuaranteedAnalyzeParameters (EA T) ADL1;
          (o2gR, RDL1) = OwnedToGuaranteedAnalyzeResults (EA T) (ResultDescList TD);
          (expl, ADL3) = ArgumentExplosionAnalyzeParameters (EA T) ADL2;
          Changed = (dead \<or> o2gP \<or> o2gR \<or> expl);
          S1 = S\<lparr>Transform := T\<lparr>TransformDescriptor :=
                  TD\<lparr>ArgumentDescList := ADL3, ResultDescList := RDL1\<rparr>\<rparr>\<rparr>
      in if Changed then (True, createFunctionSignatureOptimizedFunction sv S1)
         else (False, S1))"

section \<open>The power-of-two tests on binary integers\<close>

text \<open>A value of a \<^verbatim>\<open>BinaryInteger\<close> type is seen through \<^verbatim>\<open>Self.isSigned\<close> and its
  \<^verbatim>\<open>words\<close>: the words of its two's complement representation, least significant
  first, each a \<^verbatim>\<open>UInt\<close> of 64 bits. \<open>integerValue\<close> is the number such a collection of
  words stands for.\<close>

type_synonym UInt = "64 word"

fun wordsMagnitude :: "UInt list \<Rightarrow> int" where
  "wordsMagnitude [] = 0"
| "wordsMagnitude (w # ws) = uint w + 2 ^ 64 * wordsMagnitude ws"

definition integerValue :: "bool \<Rightarrow> UInt list \<Rightarrow> int" where
  "integerValue isSigned ws =
     (if isSigned \<and> ws \<noteq> [] \<and> sint (last ws) < 0
      then wordsMagnitude ws - 2 ^ (64 * length ws)
      else wordsMagnitude ws)"

text \<open>\<^verbatim>\<open>self > 0 && self & (self - 1) == 0\<close> on the value itself. The subtraction is
  only reached for a positive value and cannot overflow.\<close>

definition isPowerOfTwo_classic :: "int \<Rightarrow> bool" where
  "isPowerOfTwo_classic self = (self > 0 \<and> self AND (self - 1) = 0)"

text \<open>The loop of \<^verbatim>\<open>_isPowerOfTwo_words\<close> over the words, carrying
  \<^verbatim>\<open>foundPowerOfTwoWord\<close>.\<close>

fun wordsLoop :: "UInt list \<Rightarrow> bool \<Rightarrow> bool" where
  "wordsLoop [] foundPowerOfTwoWord = foundPowerOfTwoWord"
| "wordsLoop (word # rest) foundPowerOfTwoWord =
     (if word = 0 then wordsLoop rest foundPowerOfTwoWord
      else if foundPowerOfTwoWord then False
      else if word AND (word - 1) \<noteq> 0 then False
      else wordsLoop rest True)"

text \<open>\<^verbatim>\<open>_isPowerOfTwo_words\<close>; \<open>None\<close> is the failed precondition on empty words.\<close>

definition isPowerOfTwo_words :: "bool \<Rightarrow> UInt list \<Rightarrow> bool option" where
  "isPowerOfTwo_words isSigned words =
     (if words = [] then None
      else if length words = 1 then
        (let word = hd words in Some (word > 0 \<and> word AND (word - 1) = 0))
      else if isSigned \<and> sint (last words) < 0 then Some False
      else Some (wordsLoop words False))"

section \<open>Concrete inputs\<close>

text \<open>A module in which type 0 is trivial and every type but type 9 may be expanded, an
  argument of type 1 at index 0, descriptors built by the constructor over a given
  projection tree, and a matcher that knows the argument at index 0.\<close>

definition exampleModule :: SILModule where
  "exampleModule =
     \<lparr> TrivialTypes = (\<lambda>T. TypeId T = 0), ExpandableTypes = (\<lambda>T. TypeId T \<noteq> 9) \<rparr>"

definition exampleArg ::
  "SILValueCategory \<Rightarrow> bool \<Rightarrow> SILArgumentConvention \<Rightarrow> SILFunctionArgument" where
  "exampleArg cat arch conv =
     \<lparr> getModule = exampleModule,
       getType = \<lparr> TypeId = 1, Category = cat, ContainsArchetype = arch \<rparr>,
       getIndex = 0, getDecl = None, getKnownParameterInfo = None,
       getArgumentConvention = conv, getOwnershipKind = Owned,
       isIndirectResult = False \<rparr>"

definition exampleDescriptor ::
  "SILFunctionArgument \<Rightarrow> bool \<Rightarrow> 32 word \<Rightarrow> ArgumentDescriptor" where
  "exampleDescriptor A single n =
     ArgumentDescriptor_init (\<lambda>M T. \<lparr> isSingleton = single, getLiveLeafCount = n \<rparr>) A"

definition exampleMatcher ::
  "SILInstruction list \<Rightarrow> bool \<Rightarrow> ConsumedArgToEpilogueReleaseMatcher" where
  "exampleMatcher rs all = [0 \<mapsto> \<lparr> matchedReleases = rs, foundAllReleases = all \<rparr>]"

definition exampleServices :: SynthesisServices where
  "exampleServices =
     \<lparr> createOptimizedSILFunctionName = (\<lambda>F ADL RDL. FnName F @ ''Tf''),
       createOptimizedSILFunctionType = (\<lambda>F ADL RDL. ([], FnResults F)),
       cloneBody = (\<lambda>F ADL RDL. FnBody F),
       thunkBody = (\<lambda>F H ADL RDL. [0]) \<rparr>"

definition exampleFunction :: SILFunction where
  "exampleFunction =
     \<lparr> FnName = ''f'', FnParameters = [], FnResults = [], FnBody = [1, 2, 3] \<rparr>"

definition exampleAnalysis :: EpilogueARCAnalysis where
  "exampleAnalysis =
     \<lparr> ReturnMatcher = Map.empty, ThrowMatcher = None, RetainMatcher = (\<lambda>i. []) \<rparr>"

definition exampleState :: "ArgumentDescriptor list \<Rightarrow> EngineState" where
  "exampleState ADL =
     \<lparr> Transform = FunctionSignatureTransform_init 0 0 exampleAnalysis () Map.empty ADL [],
       Functions = [exampleFunction] \<rparr>"

section \<open>Properties of ArgumentDescriptor\<close>

lemmas example_defs =
  exampleDescriptor_def exampleArg_def exampleMatcher_def exampleModule_def
  ArgumentDescriptor_init_def canOptimizeLiveArg_def isObject_def isAddress_def
  hasArchetype_def shouldExpand_def isTrivial_def getObjectType_def hasConvention_def
  Arg_hasConvention_def hasSomeReleasesForArgument_def releasesFoundFor_def
  allReleasesFoundFor_def

text \<open>C1: for an argument that passes the eligibility steps (it can be optimized, its
  projection tree is not a singleton, the expansion oracle approves its object type)
  and to which the override for owned arguments does not apply, \<^verbatim>\<open>shouldExplode\<close>
  answers true exactly when the live-leaf count is between 1 and 3.\<close>

theorem shouldExplode_leaf_count:
  assumes "canOptimizeLiveArg D"
    and "\<not> isSingleton (ProjTree D)"
    and "shouldExpand (getModule (Arg D)) (getObjectType (getType (Arg D)))"
    and "\<not> (hasConvention D Direct_Owned \<and> hasSomeReleasesForArgument ERM (Arg D))"
  shows "shouldExplode D ERM =
           (1 \<le> unat (getLiveLeafCount (ProjTree D)) \<and> unat (getLiveLeafCount (ProjTree D)) \<le> 3)"
  using assms by (auto simp add: shouldExplode_def Let_def word_le_nat_alt)

theorem shouldExplode_leaf_count_witness:
  "canOptimizeLiveArg (exampleDescriptor (exampleArg Object False Direct_Owned) False 3) \<and>
   \<not> isSingleton (ProjTree (exampleDescriptor (exampleArg Object False Direct_Owned) False 3)) \<and>
   shouldExpand (getModule (Arg (exampleDescriptor (exampleArg Object False Direct_Owned) False 3)))
     (getObjectType (getType (Arg (exampleDescriptor (exampleArg Object False Direct_Owned) False 3)))) \<and>
   \<not> (hasConvention (exampleDescriptor (exampleArg Object False Direct_Owned) False 3) Direct_Owned \<and>
      hasSomeReleasesForArgument (exampleMatcher [7] True)
        (Arg (exampleDescriptor (exampleArg Object False Direct_Owned) False 3))) \<and>
   shouldExplode (exampleDescriptor (exampleArg Object False Direct_Owned) False 3)
     (exampleMatcher [7] True) \<and>
   \<not> shouldExplode (exampleDescriptor (exampleArg Object False Direct_Unowned) False 4)
     (exampleMatcher [] False)"
  using shouldExplode_leaf_count
          [of "exampleDescriptor (exampleArg Object False Direct_Owned) False 3"
              "exampleMatcher [7] True"]
        shouldExplode_leaf_count
          [of "exampleDescriptor (exampleArg Object False Direct_Unowned) False 4"
              "exampleMatcher [] False"]
  by (simp add: exampleDescriptor_def exampleArg_def exampleMatcher_def exampleModule_def
      ArgumentDescriptor_init_def canOptimizeLiveArg_def isObject_def shouldExpand_def
      getObjectType_def hasConvention_def Arg_hasConvention_def hasSomeReleasesForArgument_def)

text \<open>C2, as stated: an owned argument whose releases were not all found is exploded
  whatever its live-leaf count is. This fails for an owned argument for which the
  matcher found no release at all: with five live leaves it is not exploded.\<close>

theorem shouldExplode_override_counterexample:
  "hasConvention (exampleDescriptor (exampleArg Object False Direct_Owned) False 5) Direct_Owned \<and>
   \<not> allReleasesFoundFor (exampleMatcher [] False)
       (Arg (exampleDescriptor (exampleArg Object False Direct_Owned) False 5)) \<and>
   canOptimizeLiveArg (exampleDescriptor (exampleArg Object False Direct_Owned) False 5) \<and>
   \<not> isSingleton (ProjTree (exampleDescriptor (exampleArg Object False Direct_Owned) False 5)) \<and>
   shouldExpand (getModule (Arg (exampleDescriptor (exampleArg Object False Direct_Owned) False 5)))
     (getObjectType (getType (Arg (exampleDescriptor (exampleArg Object False Direct_Owned) False 5)))) \<and>
   \<not> shouldExplode (exampleDescriptor (exampleArg Object False Direct_Owned) False 5)
       (exampleMatcher [] False)"
  by (simp add: example_defs shouldExplode_def)

text \<open>C2, amended: for an owned argument that passes the eligibility steps,
  \<^verbatim>\<open>shouldExplode\<close> answers true whatever the live-leaf count is exactly when the
  matcher found at least one of its releases and not all of them; otherwise the
  live-leaf count decides.\<close>

theorem shouldExplode_override:
  assumes "canOptimizeLiveArg D"
    and "\<not> isSingleton (ProjTree D)"
    and "shouldExpand (getModule (Arg D)) (getObjectType (getType (Arg D)))"
    and "hasConvention D Direct_Owned"
  shows "shouldExplode D ERM =
           ((releasesFoundFor ERM (Arg D) \<noteq> [] \<and> \<not> allReleasesFoundFor ERM (Arg D)) \<or>
            (1 \<le> unat (getLiveLeafCount (ProjTree D)) \<and>
             unat (getLiveLeafCount (ProjTree D)) \<le> 3))"
  using assms
  by (auto simp add: shouldExplode_def Let_def word_le_nat_alt hasSomeReleasesForArgument_def
      releasesFoundFor_def allReleasesFoundFor_def split: option.splits)

theorem shouldExplode_override_witness:
  "canOptimizeLiveArg (exampleDescriptor (exampleArg Object False Direct_Owned) False 5) \<and>
   \<not> isSingleton (ProjTree (exampleDescriptor (exampleArg Object False Direct_Owned) False 5)) \<and>
   shouldExpand (getModule (Arg (exampleDescriptor (exampleArg Object False Direct_Owned) False 5)))
     (getObjectType (getType (Arg (exampleDescriptor (exampleArg Object False Direct_Owned) False 5)))) \<and>
   hasConvention (exampleDescriptor (exampleArg Object False Direct_Owned) False 5) Direct_Owned \<and>
   shouldExplode (exampleDescriptor (exampleArg Object False Direct_Owned) False 5)
     (exampleMatcher [7] False) \<and>
   \<not> shouldExplode (exampleDescriptor (exampleArg Object False Direct_Owned) False 5)
     (exampleMatcher [7, 8] True)"
  using shouldExplode_override
          [of "exampleDescriptor (exampleArg Object False Direct_Owned) False 5"
              "exampleMatcher [7] False"]
        shouldExplode_override
          [of "exampleDescriptor (exampleArg Object False Direct_Owned) False 5"
              "exampleMatcher [7, 8] True"]
  by (simp add: example_defs)

text \<open>C3: whenever \<^verbatim>\<open>shouldExplode\<close> answers true, the projection tree is not a
  singleton and has between 1 and 3 live leaves, or the argument is owned and the
  matcher found at least one release for it. An argument with a singleton tree is
  never exploded, and neither is one with more than 3 live leaves that is not an owned
  argument with a matched release.\<close>

theorem shouldExplode_sound:
  "(shouldExplode D ERM \<longrightarrow>
      (\<not> isSingleton (ProjTree D) \<and>
       1 \<le> unat (getLiveLeafCount (ProjTree D)) \<and> unat (getLiveLeafCount (ProjTree D)) \<le> 3) \<or>
      (hasConvention D Direct_Owned \<and> releasesFoundFor ERM (Arg D) \<noteq> [])) \<and>
   (isSingleton (ProjTree D) \<longrightarrow> \<not> shouldExplode D ERM) \<and>
   (3 < unat (getLiveLeafCount (ProjTree D)) \<and>
    \<not> (hasConvention D Direct_Owned \<and> releasesFoundFor ERM (Arg D) \<noteq> [])
      \<longrightarrow> \<not> shouldExplode D ERM)"
  by (auto simp add: shouldExplode_def Let_def word_le_nat_alt hasSomeReleasesForArgument_def
      releasesFoundFor_def split: option.splits if_splits)

theorem shouldExplode_sound_witness:
  "shouldExplode (exampleDescriptor (exampleArg Object False Direct_Guaranteed) False 2)
     (exampleMatcher [] False) \<and>
   shouldExplode (exampleDescriptor (exampleArg Object False Direct_Owned) False 6)
     (exampleMatcher [7] False) \<and>
   hasConvention (exampleDescriptor (exampleArg Object False Direct_Owned) False 6) Direct_Owned \<and>
   releasesFoundFor (exampleMatcher [7] False)
     (Arg (exampleDescriptor (exampleArg Object False Direct_Owned) False 6)) \<noteq> [] \<and>
   isSingleton (ProjTree (exampleDescriptor (exampleArg Object False Direct_Owned) True 2)) \<and>
   \<not> shouldExplode (exampleDescriptor (exampleArg Object False Direct_Owned) True 2)
       (exampleMatcher [7] False) \<and>
   3 < unat (getLiveLeafCount
              (ProjTree (exampleDescriptor (exampleArg Object False Direct_Guaranteed) False 4))) \<and>
   \<not> shouldExplode (exampleDescriptor (exampleArg Object False Direct_Guaranteed) False 4)
       (exampleMatcher [7] False)"
  using shouldExplode_sound
          [of "exampleDescriptor (exampleArg Object False Direct_Guaranteed) False 2"
              "exampleMatcher [] False"]
        shouldExplode_sound
          [of "exampleDescriptor (exampleArg Object False Direct_Owned) False 6"
              "exampleMatcher [7] False"]
        shouldExplode_sound
          [of "exampleDescriptor (exampleArg Object False Direct_Owned) True 2"
              "exampleMatcher [7] False"]
        shouldExplode_sound
          [of "exampleDescriptor (exampleArg Object False Direct_Guaranteed) False 4"
              "exampleMatcher [7] False"]
  by (simp add: example_defs shouldExplode_def)

text \<open>C4: an argument whose projection tree is a singleton is never exploded, whatever
  its convention, its matched releases, the verdict of the expansion oracle and its
  live-leaf count are.\<close>

theorem shouldExplode_singleton:
  "isSingleton (ProjTree D) \<Longrightarrow> shouldExplode D ERM = False"
  by (simp add: shouldExplode_def)

theorem shouldExplode_singleton_witness:
  "isSingleton (ProjTree (exampleDescriptor (exampleArg Object False Direct_Owned) True 2)) \<and>
   shouldExplode (exampleDescriptor (exampleArg Object False Direct_Owned) True 2)
     (exampleMatcher [7] False) = False"
  using shouldExplode_singleton
          [of "exampleDescriptor (exampleArg Object False Direct_Owned) True 2"
              "exampleMatcher [7] False"]
  by (simp add: example_defs)

text \<open>C5, as stated: an indirectly passed value of a type without generic parts is
  accepted by \<^verbatim>\<open>canOptimizeLiveArg\<close>. This fails: an address argument whose type has no
  archetype is rejected, here under the \<^verbatim>\<open>Indirect_In\<close> convention.\<close>

theorem canOptimizeLiveArg_counterexample:
  "isAddress (getType (Arg (exampleDescriptor (exampleArg Address False Indirect_In) False 2))) \<and>
   \<not> hasArchetype (getType (Arg (exampleDescriptor (exampleArg Address False Indirect_In) False 2))) \<and>
   \<not> canOptimizeLiveArg (exampleDescriptor (exampleArg Address False Indirect_In) False 2)"
  by (simp add: example_defs)

text \<open>C5, amended: \<^verbatim>\<open>canOptimizeLiveArg\<close> accepts an argument exactly when its type is
  an object type (a directly passed value), or its type is an address type that
  contains an archetype and its convention is \<^verbatim>\<open>Indirect_In\<close> or
  \<^verbatim>\<open>Indirect_In_Guaranteed\<close>.\<close>

theorem canOptimizeLiveArg_iff:
  "canOptimizeLiveArg D \<longleftrightarrow>
     isObject (getType (Arg D)) \<or>
     (isAddress (getType (Arg D)) \<and> hasArchetype (getType (Arg D)) \<and>
      (hasConvention D Indirect_In \<or> hasConvention D Indirect_In_Guaranteed))"
  by (auto simp add: canOptimizeLiveArg_def hasConvention_def)

text \<open>C8: \<^verbatim>\<open>getTransformedOwnershipKind\<close> answers nothing for a descriptor that is
  entirely dead; otherwise \<^verbatim>\<open>Trivial\<close> for a trivial sub-type, also when the
  owned-to-guaranteed decision is set; otherwise \<^verbatim>\<open>Guaranteed\<close> when that decision is
  set; otherwise the ownership kind of the original argument.\<close>

theorem getTransformedOwnershipKind_priority:
  "(IsEntirelyDead D \<longrightarrow> getTransformedOwnershipKind D SubTy = None) \<and>
   (\<not> IsEntirelyDead D \<and> isTrivial SubTy (getModule (Arg D)) \<longrightarrow>
      getTransformedOwnershipKind D SubTy = Some Trivial) \<and>
   (\<not> IsEntirelyDead D \<and> \<not> isTrivial SubTy (getModule (Arg D)) \<and> OwnedToGuaranteed D \<longrightarrow>
      getTransformedOwnershipKind D SubTy = Some Guaranteed) \<and>
   (\<not> IsEntirelyDead D \<and> \<not> isTrivial SubTy (getModule (Arg D)) \<and> \<not> OwnedToGuaranteed D \<longrightarrow>
      getTransformedOwnershipKind D SubTy = Some (getOwnershipKind (Arg D)))"
  by (simp add: getTransformedOwnershipKind_def)

theorem getTransformedOwnershipKind_priority_witness:
  "getTransformedOwnershipKind
     ((exampleDescriptor (exampleArg Object False Direct_Owned) False 2)
        \<lparr>IsEntirelyDead := True, OwnedToGuaranteed := True\<rparr>)
     \<lparr> TypeId = 0, Category = Object, ContainsArchetype = False \<rparr> = None \<and>
   getTransformedOwnershipKind
     ((exampleDescriptor (exampleArg Object False Direct_Owned) False 2)
        \<lparr>OwnedToGuaranteed := True\<rparr>)
     \<lparr> TypeId = 0, Category = Object, ContainsArchetype = False \<rparr> = Some Trivial \<and>
   getTransformedOwnershipKind
     ((exampleDescriptor (exampleArg Object False Direct_Owned) False 2)
        \<lparr>OwnedToGuaranteed := True\<rparr>)
     \<lparr> TypeId = 1, Category = Object, ContainsArchetype = False \<rparr> = Some Guaranteed \<and>
   getTransformedOwnershipKind
     (exampleDescriptor (exampleArg Object False Direct_Owned) False 2)
     \<lparr> TypeId = 1, Category = Object, ContainsArchetype = False \<rparr> = Some Owned"
  using getTransformedOwnershipKind_priority
          [of "(exampleDescriptor (exampleArg Object False Direct_Owned) False 2)
                 \<lparr>IsEntirelyDead := True, OwnedToGuaranteed := True\<rparr>"
              "\<lparr> TypeId = 0, Category = Object, ContainsArchetype = False \<rparr>"]
        getTransformedOwnershipKind_priority
          [of "(exampleDescriptor (exampleArg Object False Direct_Owned) False 2)
                 \<lparr>OwnedToGuaranteed := True\<rparr>"
              "\<lparr> TypeId = 0, Category = Object, ContainsArchetype = False \<rparr>"]
        getTransformedOwnershipKind_priority
          [of "(exampleDescriptor (exampleArg Object False Direct_Owned) False 2)
                 \<lparr>OwnedToGuaranteed := True\<rparr>"
              "\<lparr> TypeId = 1, Category = Object, ContainsArchetype = False \<rparr>"]
        getTransformedOwnershipKind_priority
          [of "exampleDescriptor (exampleArg Object False Direct_Owned) False 2"
              "\<lparr> TypeId = 1, Category = Object, ContainsArchetype = False \<rparr>"]
  by (simp add: example_defs)

text \<open>C9: right after construction every decision flag of an \<^verbatim>\<open>ArgumentDescriptor\<close> is
  false, both lists of matched releases are empty, and the descriptor holds the index
  of the argument and whether it is an indirect result.\<close>

theorem ArgumentDescriptor_init_flags:
  "IsEntirelyDead (ArgumentDescriptor_init mkProjTree A) = False \<and>
   WasErased (ArgumentDescriptor_init mkProjTree A) = False \<and>
   Explode (ArgumentDescriptor_init mkProjTree A) = False \<and>
   OwnedToGuaranteed (ArgumentDescriptor_init mkProjTree A) = False \<and>
   CalleeRelease (ArgumentDescriptor_init mkProjTree A) = [] \<and>
   CalleeReleaseInThrowBlock (ArgumentDescriptor_init mkProjTree A) = [] \<and>
   Index (ArgumentDescriptor_init mkProjTree A) = getIndex A \<and>
   IsIndirectResult (ArgumentDescriptor_init mkProjTree A) = isIndirectResult A"
  by (simp add: ArgumentDescriptor_init_def Let_def)

section \<open>Properties of the engine\<close>

lemmas engine_defs =
  exampleState_def exampleServices_def exampleFunction_def exampleAnalysis_def
  FunctionSignatureTransform_init_def getOptimizedFunction_def
  DeadArgumentAnalyzeParameters_def OwnedToGuaranteedAnalyzeParameters_def
  OwnedToGuaranteedAnalyzeResults_def ArgumentExplosionAnalyzeParameters_def
  deadArgumentEligible_def ownedToGuaranteedEligible_def resultEligible_def
  createFunctionSignatureOptimizedFunction_def

lemma map_if_unchanged: "\<not> list_ex P xs \<Longrightarrow> map (\<lambda>x. if P x then f x else x) xs = xs"
  by (induction xs) auto

lemma create_Functions:
  "OriginalFunction (TransformDescriptor (Transform S)) < length (Functions S) \<Longrightarrow>
   length (Functions (createFunctionSignatureOptimizedFunction sv S)) = Suc (length (Functions S))"
  by (simp add: createFunctionSignatureOptimizedFunction_def Let_def)

lemma create_Optimized:
  "OriginalFunction (TransformDescriptor (Transform S)) < length (Functions S) \<Longrightarrow>
   getOptimizedFunction (Transform (createFunctionSignatureOptimizedFunction sv S))
     = Some (length (Functions S))"
  by (simp add: createFunctionSignatureOptimizedFunction_def Let_def getOptimizedFunction_def)

text \<open>C6: when none of the analyses (dead arguments, owned to guaranteed on parameters
  and results, explosion) marks a descriptor, \<^verbatim>\<open>run\<close> answers false, the function
  table of the module, and with it the body and the signature of the original
  function, is unchanged, and no specialized function is recorded.\<close>

theorem run_no_opportunity:
  assumes "\<not> fst (DeadArgumentAnalyzeParameters (ArgumentDescList (TransformDescriptor (Transform S))))"
    and "\<not> fst (OwnedToGuaranteedAnalyzeParameters (EA (Transform S))
                 (ArgumentDescList (TransformDescriptor (Transform S))))"
    and "\<not> fst (OwnedToGuaranteedAnalyzeResults (EA (Transform S))
                 (ResultDescList (TransformDescriptor (Transform S))))"
    and "\<not> fst (ArgumentExplosionAnalyzeParameters (EA (Transform S))
                 (ArgumentDescList (TransformDescriptor (Transform S))))"
  shows "fst (run sv hasCaller S) = False \<and>
         Functions (snd (run sv hasCaller S)) = Functions S \<and>
         getOptimizedFunction (Transform (snd (run sv hasCaller S)))
           = getOptimizedFunction (Transform S)"
proof -
  let ?ADL = "ArgumentDescList (TransformDescriptor (Transform S))"
  from assms(1) have dead: "\<not> list_ex deadArgumentEligible ?ADL"
    by (simp add: DeadArgumentAnalyzeParameters_def)
  then have adl1: "snd (DeadArgumentAnalyzeParameters ?ADL) = ?ADL"
    by (simp add: DeadArgumentAnalyzeParameters_def map_if_unchanged)
  from assms(2) have o2g: "\<not> list_ex (ownedToGuaranteedEligible (EA (Transform S))) ?ADL"
    by (simp add: OwnedToGuaranteedAnalyzeParameters_def)
  then have adl2: "snd (OwnedToGuaranteedAnalyzeParameters (EA (Transform S)) ?ADL) = ?ADL"
    by (simp add: OwnedToGuaranteedAnalyzeParameters_def map_if_unchanged)
  show ?thesis
    using assms adl1 adl2
    by (simp add: run_def Let_def split_beta getOptimizedFunction_def)
qed

theorem run_no_opportunity_witness:
  "\<not> fst (DeadArgumentAnalyzeParameters (ArgumentDescList (TransformDescriptor (Transform
        (exampleState [exampleDescriptor (exampleArg Object False Direct_Guaranteed) True 1]))))) \<and>
   \<not> fst (OwnedToGuaranteedAnalyzeParameters
        (EA (Transform (exampleState [exampleDescriptor (exampleArg Object False Direct_Guaranteed) True 1])))
        (ArgumentDescList (TransformDescriptor (Transform
        (exampleState [exampleDescriptor (exampleArg Object False Direct_Guaranteed) True 1]))))) \<and>
   \<not> fst (OwnedToGuaranteedAnalyzeResults
        (EA (Transform (exampleState [exampleDescriptor (exampleArg Object False Direct_Guaranteed) True 1])))
        (ResultDescList (TransformDescriptor (Transform
        (exampleState [exampleDescriptor (exampleArg Object False Direct_Guaranteed) True 1]))))) \<and>
   \<not> fst (ArgumentExplosionAnalyzeParameters
        (EA (Transform (exampleState [exampleDescriptor (exampleArg Object False Direct_Guaranteed) True 1])))
        (ArgumentDescList (TransformDescriptor (Transform
        (exampleState [exampleDescriptor (exampleArg Object False Direct_Guaranteed) True 1]))))) \<and>
   fst (run exampleServices True
        (exampleState [exampleDescriptor (exampleArg Object False Direct_Guaranteed) True 1])) = False \<and>
   Functions (snd (run exampleServices True
        (exampleState [exampleDescriptor (exampleArg Object False Direct_Guaranteed) True 1])))
     = [exampleFunction] \<and>
   getOptimizedFunction (Transform (snd (run exampleServices True
        (exampleState [exampleDescriptor (exampleArg Object False Direct_Guaranteed) True 1]))))
     = None"
  using run_no_opportunity
          [of "exampleState [exampleDescriptor (exampleArg Object False Direct_Guaranteed) True 1]"
              exampleServices True]
  by (simp add: engine_defs example_defs shouldExplode_def)

text \<open>C7: \<^verbatim>\<open>getOptimizedFunction\<close> answers null for a freshly constructed transform.
  After \<^verbatim>\<open>run\<close> on a fresh transform of a function of the module, it answers a
  function exactly when \<^verbatim>\<open>run\<close> answered true, which is exactly when one function was
  added to the module; the function it answers is that new function.\<close>

theorem getOptimizedFunction_fresh:
  "getOptimizedFunction (FunctionSignatureTransform_init F rcia ea Mangler aim ADL RDL) = None \<and>
   (Transform S = FunctionSignatureTransform_init F rcia ea Mangler aim ADL RDL \<and>
    F < length (Functions S) \<longrightarrow>
      (fst (run sv hasCaller S) \<longleftrightarrow>
         getOptimizedFunction (Transform (snd (run sv hasCaller S))) \<noteq> None) \<and>
      (fst (run sv hasCaller S) \<longleftrightarrow>
         length (Functions (snd (run sv hasCaller S))) = Suc (length (Functions S))) \<and>
      (\<not> fst (run sv hasCaller S) \<longrightarrow> Functions (snd (run sv hasCaller S)) = Functions S) \<and>
      (\<forall>H. getOptimizedFunction (Transform (snd (run sv hasCaller S))) = Some H \<longrightarrow>
           length (Functions S) \<le> H \<and> H < length (Functions (snd (run sv hasCaller S)))))"
proof -
  have fresh: "getOptimizedFunction (FunctionSignatureTransform_init F rcia ea Mangler aim ADL RDL) = None"
    by (simp add: getOptimizedFunction_def FunctionSignatureTransform_init_def)
  have rest: "(fst (run sv hasCaller S) \<longleftrightarrow>
         getOptimizedFunction (Transform (snd (run sv hasCaller S))) \<noteq> None) \<and>
      (fst (run sv hasCaller S) \<longleftrightarrow>
         length (Functions (snd (run sv hasCaller S))) = Suc (length (Functions S))) \<and>
      (\<not> fst (run sv hasCaller S) \<longrightarrow> Functions (snd (run sv hasCaller S)) = Functions S) \<and>
      (\<forall>H. getOptimizedFunction (Transform (snd (run sv hasCaller S))) = Some H \<longrightarrow>
           length (Functions S) \<le> H \<and> H < length (Functions (snd (run sv hasCaller S))))"
    if T: "Transform S = FunctionSignatureTransform_init F rcia ea Mangler aim ADL RDL"
      and F: "F < length (Functions S)"
  proof (cases "fst (run sv hasCaller S)")
    case True
    then obtain S1 where S1: "snd (run sv hasCaller S) = createFunctionSignatureOptimizedFunction sv S1"
      and f: "Functions S1 = Functions S"
      and o: "OriginalFunction (TransformDescriptor (Transform S1)) = F"
      using T by (auto simp add: run_def Let_def split_beta FunctionSignatureTransform_init_def
          split: if_splits)
    from F f o have v: "OriginalFunction (TransformDescriptor (Transform S1)) < length (Functions S1)"
      by simp
    show ?thesis
      using True S1 f create_Functions [OF v, of sv] create_Optimized [OF v, of sv] by simp
  next
    case False
    then have "Functions (snd (run sv hasCaller S)) = Functions S"
      and "getOptimizedFunction (Transform (snd (run sv hasCaller S))) = None"
      using T by (auto simp add: run_def Let_def split_beta FunctionSignatureTransform_init_def
          getOptimizedFunction_def split: if_splits)
    with False show ?thesis by simp
  qed
  from fresh rest show ?thesis by blast
qed

theorem getOptimizedFunction_fresh_witness:
  "Transform (exampleState [exampleDescriptor (exampleArg Object False Direct_Guaranteed) False 2])
     = FunctionSignatureTransform_init 0 0 exampleAnalysis () Map.empty
         [exampleDescriptor (exampleArg Object False Direct_Guaranteed) False 2] [] \<and>
   0 < length (Functions (exampleState [exampleDescriptor (exampleArg Object False Direct_Guaranteed) False 2])) \<and>
   fst (run exampleServices True
     (exampleState [exampleDescriptor (exampleArg Object False Direct_Guaranteed) False 2])) \<and>
   getOptimizedFunction (Transform (snd (run exampleServices True
     (exampleState [exampleDescriptor (exampleArg Object False Direct_Guaranteed) False 2])))) = Some 1 \<and>
   length (Functions (snd (run exampleServices True
     (exampleState [exampleDescriptor (exampleArg Object False Direct_Guaranteed) False 2])))) = 2 \<and>
   \<not> fst (run exampleServices True
     (exampleState [exampleDescriptor (exampleArg Object False Direct_Guaranteed) True 1])) \<and>
   getOptimizedFunction (Transform (snd (run exampleServices True
     (exampleState [exampleDescriptor (exampleArg Object False Direct_Guaranteed) True 1])))) = None"
  using getOptimizedFunction_fresh
          [of 0 0 exampleAnalysis "()" Map.empty
              "[exampleDescriptor (exampleArg Object False Direct_Guaranteed) False 2]" "[]"
              "exampleState [exampleDescriptor (exampleArg Object False Direct_Guaranteed) False 2]"
              exampleServices True]
        getOptimizedFunction_fresh
          [of 0 0 exampleAnalysis "()" Map.empty
              "[exampleDescriptor (exampleArg Object False Direct_Guaranteed) True 1]" "[]"
              "exampleState [exampleDescriptor (exampleArg Object False Direct_Guaranteed) True 1]"
              exampleServices True]
  by (simp add: engine_defs example_defs shouldExplode_def run_def Let_def)

section \<open>Properties of the power-of-two tests\<close>

text \<open>Bit-level facts about integers split into a low part of \<open>n\<close> bits and the rest,
  and about the words of a value.\<close>

lemma split_zero_iff:
  "(a :: int) = 0 \<longleftrightarrow> take_bit n a = 0 \<and> drop_bit n a = 0"
proof
  assume "take_bit n a = 0 \<and> drop_bit n a = 0"
  then show "a = 0" using bits_ident [of n a] by simp
qed simp

lemma take_drop_sum:
  fixes r m :: int
  assumes "0 \<le> r" "r < 2 ^ n"
  shows "take_bit n (r + 2 ^ n * m) = r" and "drop_bit n (r + 2 ^ n * m) = m"
  using assms by (simp_all add: take_bit_eq_mod drop_bit_eq_div)

lemma and_pred_low_nonzero:
  fixes r m :: int
  assumes "0 < r" "r < 2 ^ n"
  shows "(r + 2 ^ n * m) AND (r + 2 ^ n * m - 1) = 0 \<longleftrightarrow> r AND (r - 1) = 0 \<and> m = 0"
proof -
  have a: "take_bit n (r + 2 ^ n * m) = r" "drop_bit n (r + 2 ^ n * m) = m"
    using assms take_drop_sum [of r n m] by simp_all
  have eq: "r + 2 ^ n * m - 1 = (r - 1) + 2 ^ n * m" by simp
  have b: "take_bit n (r + 2 ^ n * m - 1) = r - 1" "drop_bit n (r + 2 ^ n * m - 1) = m"
    unfolding eq using assms take_drop_sum [of "r - 1" n m] by simp_all
  have t: "take_bit n ((r + 2 ^ n * m) AND (r + 2 ^ n * m - 1)) = r AND (r - 1)"
    by (simp only: take_bit_and a b)
  have d: "drop_bit n ((r + 2 ^ n * m) AND (r + 2 ^ n * m - 1)) = m"
    by (simp only: drop_bit_and a b and.idem)
  show ?thesis
    by (subst split_zero_iff [of _ n]) (simp only: t d)
qed

lemma and_pred_low_zero:
  fixes m :: int
  shows "(2 ^ n * m) AND (2 ^ n * m - 1) = 0 \<longleftrightarrow> m AND (m - 1) = 0"
proof -
  have a: "take_bit n (2 ^ n * m) = 0" "drop_bit n (2 ^ n * m) = m"
    using take_drop_sum [of 0 n m] by simp_all
  have eq: "2 ^ n * m - 1 = (2 ^ n - 1) + 2 ^ n * (m - 1)" by (simp add: algebra_simps)
  have b: "drop_bit n (2 ^ n * m - 1) = m - 1"
    unfolding eq using take_drop_sum(2) [of "2 ^ n - 1" n "m - 1"] by simp
  have t: "take_bit n ((2 ^ n * m) AND (2 ^ n * m - 1)) = 0"
    by (simp only: take_bit_and a and_zero_eq zero_and_eq)
  have d: "drop_bit n ((2 ^ n * m) AND (2 ^ n * m - 1)) = m AND (m - 1)"
    by (simp only: drop_bit_and a b)
  show ?thesis
    by (subst split_zero_iff [of _ n]) (simp only: t d simp_thms)
qed

lemma wordsMagnitude_nonneg: "0 \<le> wordsMagnitude ws"
  by (induction ws) simp_all

lemma wordsMagnitude_bound: "wordsMagnitude ws < 2 ^ (64 * length ws)"
proof (induction ws)
  case Nil
  show ?case by simp
next
  case (Cons w ws)
  have "uint w < 2 ^ 64" using uint_bounded [of w] by simp
  moreover have "wordsMagnitude ws + 1 \<le> 2 ^ (64 * length ws)" using Cons.IH by simp
  then have "2 ^ 64 * (wordsMagnitude ws + 1) \<le> 2 ^ 64 * 2 ^ (64 * length ws)"
    by (rule mult_left_mono) simp
  ultimately show ?case by (simp add: algebra_simps power_add)
qed

lemma word_pred_and_uint:
  fixes w :: UInt
  assumes "w \<noteq> 0"
  shows "uint w AND (uint w - 1) = 0 \<longleftrightarrow> w AND (w - 1) = 0"
proof -
  have "uint w \<noteq> 0" using assms by (simp add: uint_0_iff)
  moreover have "0 \<le> uint w" by simp
  ultimately have "1 \<le> uint w" by linarith
  then have "uint (1 :: UInt) \<le> uint w" by simp
  then have "uint (w - 1) = uint w - uint (1 :: UInt)" by (simp only: uint_sub_lem [symmetric])
  then have "uint (w - 1) = uint w - 1" by simp
  then have "uint (w AND (w - 1)) = uint w AND (uint w - 1)"
    by (simp add: uint_and)
  then show ?thesis
    by (metis uint_0_iff)
qed

lemma sint_neg_iff: "sint (w::UInt) < 0 \<longleftrightarrow> 2 ^ 63 \<le> uint w"
proof -
  have "sint w < 0 \<longleftrightarrow> bit (uint w) 63" by (simp add: sint_uint)
  also have "\<dots> \<longleftrightarrow> odd (uint w div 2 ^ 63)" by (simp add: bit_iff_odd)
  also have "\<dots> \<longleftrightarrow> 2 ^ 63 \<le> uint w"
  proof
    assume "odd (uint w div 2 ^ 63)"
    then have "uint w div 2 ^ 63 \<noteq> 0" by auto
    then show "2 ^ 63 \<le> uint w"
      using div_pos_pos_trivial [of "uint w" "2 ^ 63"] by (cases "uint w < 2 ^ 63") simp_all
  next
    assume h: "2 ^ 63 \<le> uint w"
    have "uint w < 2 ^ 64" using uint_bounded [of w] by simp
    with h have "uint w div 2 ^ 63 = 1"
      by (simp add: int_div_pos_eq [of "uint w" "2 ^ 63" 1 "uint w - 2 ^ 63"])
    then show "odd (uint w div 2 ^ 63)" by simp
  qed
  finally show ?thesis .
qed

lemma classic_cons:
  assumes "0 \<le> m"
  shows "isPowerOfTwo_classic (uint (w :: UInt) + 2 ^ 64 * m) \<longleftrightarrow>
           (if w = 0 then isPowerOfTwo_classic m else w AND (w - 1) = 0 \<and> m = 0)"
proof (cases "w = 0")
  case True
  have "(0 < (2 :: int) ^ 64 * m) = (0 < m)" by (simp add: zero_less_mult_iff)
  moreover have "uint w + 2 ^ 64 * m = 2 ^ 64 * m" using True by simp
  ultimately show ?thesis
    using True and_pred_low_zero [of 64 m] by (simp only: isPowerOfTwo_classic_def refl if_True)
next
  case False
  then have "uint w \<noteq> 0" by (simp add: uint_0_iff)
  moreover have "0 \<le> uint w" by simp
  ultimately have pos: "0 < uint w" by linarith
  have lt: "uint w < 2 ^ 64" using uint_bounded [of w] by simp
  have "0 \<le> (2 :: int) ^ 64 * m" using assms by simp
  with pos have gt: "0 < uint w + 2 ^ 64 * m" by linarith
  show ?thesis
    using False gt and_pred_low_nonzero [OF pos lt, of m] word_pred_and_uint [OF False]
    by (simp add: isPowerOfTwo_classic_def)
qed

lemma wordsLoop_found: "wordsLoop ws True \<longleftrightarrow> wordsMagnitude ws = 0"
proof (induction ws)
  case Nil
  show ?case by simp
next
  case (Cons w ws)
  show ?case
  proof (cases "w = 0")
    case True
    with Cons.IH show ?thesis by simp
  next
    case False
    then have "uint w \<noteq> 0" by (simp add: uint_0_iff)
    moreover have "0 \<le> uint w" by simp
    moreover have "0 \<le> (2 :: int) ^ 64 * wordsMagnitude ws"
      using wordsMagnitude_nonneg [of ws] by simp
    ultimately have "uint w + 2 ^ 64 * wordsMagnitude ws \<noteq> 0" by linarith
    with False show ?thesis by simp
  qed
qed

lemma wordsLoop_classic: "wordsLoop ws False \<longleftrightarrow> isPowerOfTwo_classic (wordsMagnitude ws)"
proof (induction ws)
  case Nil
  show ?case by (simp add: isPowerOfTwo_classic_def)
next
  case (Cons w ws)
  show ?case
    using Cons.IH classic_cons [OF wordsMagnitude_nonneg, of w ws] wordsLoop_found [of ws]
    by simp
qed

lemma negative_power_of_two_word:
  fixes w :: UInt
  assumes neg: "sint w < 0" and pow: "w AND (w - 1) = 0"
  shows "w = 0x8000000000000000"
proof -
  from neg have ge: "2 ^ 63 \<le> uint w" by (simp only: sint_neg_iff)
  have lt: "uint w < 2 ^ 64" using uint_bounded [of w] by simp
  from ge have nz: "w \<noteq> 0" by auto
  have "uint w = 2 ^ 63"
  proof (rule ccontr)
    assume "uint w \<noteq> 2 ^ 63"
    with ge have pos: "0 < uint w - 2 ^ 63" by linarith
    from lt have small: "uint w - 2 ^ 63 < 2 ^ 63" by simp
    have "uint w = (uint w - 2 ^ 63) + 2 ^ 63 * 1" by simp
    then have "uint w AND (uint w - 1) \<noteq> 0"
      using and_pred_low_nonzero [OF pos small, of 1] by simp
    with pow nz show False by (simp add: word_pred_and_uint)
  qed
  then have "word_of_int (uint w) = (word_of_int (2 ^ 63) :: UInt)" by simp
  then show ?thesis by simp
qed

text \<open>C10: \<^verbatim>\<open>_isPowerOfTwo_words\<close> and \<^verbatim>\<open>_isPowerOfTwo_classic\<close> are meant to agree on
  every value with non-empty words. They differ on the least value of a signed type
  of one word, \<open>- 2 ^ 63\<close>, whose only word is \<open>0x8000000000000000\<close>: the words test
  answers true, the classic test false.\<close>

theorem isPowerOfTwo_words_signed_minimum:
  "integerValue True [0x8000000000000000] = - 9223372036854775808 \<and>
   isPowerOfTwo_words True [0x8000000000000000] = Some True \<and>
   isPowerOfTwo_classic (integerValue True [0x8000000000000000]) = False"
  by (simp add: integerValue_def isPowerOfTwo_words_def isPowerOfTwo_classic_def)

text \<open>On every other value with non-empty words the two tests agree: the single word
  \<open>0x8000000000000000\<close> of a signed type is the only place where they differ.\<close>

theorem isPowerOfTwo_words_agrees_elsewhere:
  assumes "words \<noteq> []"
    and "\<not> (isSigned \<and> words = [0x8000000000000000])"
  shows "isPowerOfTwo_words isSigned words
           = Some (isPowerOfTwo_classic (integerValue isSigned words))"
proof (cases "length words = 1")
  case True
  then obtain w where w: "words = [w]" by (cases words) auto
  have gt: "(0 < w) = (w \<noteq> 0)" by (simp add: word_neq_0_conv)
  show ?thesis
  proof (cases "isSigned \<and> sint w < 0")
    case True
    have "uint w < 2 ^ 64" using uint_bounded [of w] by simp
    then have "\<not> isPowerOfTwo_classic (uint w - 2 ^ 64)"
      by (simp add: isPowerOfTwo_classic_def)
    moreover have "w AND (w - 1) \<noteq> 0"
      using True assms(2) w negative_power_of_two_word [of w] by auto
    ultimately show ?thesis
      using True w by (simp add: isPowerOfTwo_words_def integerValue_def)
  next
    case False
    have "isPowerOfTwo_classic (uint w) \<longleftrightarrow> w \<noteq> 0 \<and> w AND (w - 1) = 0"
      using classic_cons [of 0 w] by (simp add: isPowerOfTwo_classic_def)
    with False w gt show ?thesis
      by (auto simp add: isPowerOfTwo_words_def integerValue_def)
  qed
next
  case False
  show ?thesis
  proof (cases "isSigned \<and> sint (last words) < 0")
    case True
    have "wordsMagnitude words - 2 ^ (64 * length words) < 0"
      using wordsMagnitude_bound [of words] by simp
    then have "\<not> isPowerOfTwo_classic (wordsMagnitude words - 2 ^ (64 * length words))"
      by (simp add: isPowerOfTwo_classic_def)
    with True False assms(1) show ?thesis
      by (simp add: isPowerOfTwo_words_def integerValue_def)
  next
    case notneg: False
    with False assms(1) show ?thesis
      by (auto simp add: isPowerOfTwo_words_def integerValue_def wordsLoop_classic)
  qed
qed

end
